theory Spec2Isabelle
  imports Main "HOL-Library.Word" "HOL-Library.Multiset"
begin

section \<open>JavaScript strings and values\<close>

text \<open>
  A TypeScript \<open>string\<close> is a sequence of UTF-16 code units. The sources hold Chinese
  labels and flag emoji, and the subscription form trims Unicode white space, so a
  string is modelled as a list of 16-bit words. \<open>ascii\<close> embeds an ASCII literal of
  the source; a literal with characters beyond ASCII is written as its code units.
\<close>

type_synonym utf16 = "16 word list"

definition ascii :: "string \<Rightarrow> utf16" where
  "ascii s = map of_char s"

section \<open>Global constants (constants.ts)\<close>


definition MIN_RETRY_INTERVAL :: int where
  "MIN_RETRY_INTERVAL = 15"

definition MAX_RETRY_INTERVAL :: int where
  "MAX_RETRY_INTERVAL = 3600"

definition validateRetryInterval :: "int \<Rightarrow> bool" where
  "validateRetryInterval interval \<longleftrightarrow>
     interval \<ge> MIN_RETRY_INTERVAL \<and> interval \<le> MAX_RETRY_INTERVAL"

section \<open>The datacenter table\<close>

record DatacenterInfo =
  code :: utf16
  name :: utf16
  region :: utf16
  flag :: utf16
  countryCode :: utf16

definition OVH_DATACENTERS :: "DatacenterInfo list" where
  "OVH_DATACENTERS = [
   \<lparr>code = ascii ''gra'', name = [0x683C, 0x62C9, 0x592B, 0x5C3C, 0x8328],
     region = [0x6CD5, 0x56FD],
     flag = [0xD83C, 0xDDEB, 0xD83C, 0xDDF7], countryCode = ascii ''fr''\<rparr>,
   \<lparr>code = ascii ''sbg'', name = [0x65AF, 0x7279, 0x62C9, 0x65AF, 0x5821],
     region = [0x6CD5, 0x56FD],
     flag = [0xD83C, 0xDDEB, 0xD83C, 0xDDF7], countryCode = ascii ''fr''\<rparr>,
   \<lparr>code = ascii ''rbx'', name = [0x9C81, 0x8D1D],
     region = [0x6CD5, 0x56FD],
     flag = [0xD83C, 0xDDEB, 0xD83C, 0xDDF7], countryCode = ascii ''fr''\<rparr>,
   \<lparr>code = ascii ''bhs'', name = [0x535A, 0x963F, 0x5C14, 0x8BFA],
     region = [0x52A0, 0x62FF, 0x5927],
     flag = [0xD83C, 0xDDE8, 0xD83C, 0xDDE6], countryCode = ascii ''ca''\<rparr>,
   \<lparr>code = ascii ''mum'', name = [0x5B5F, 0x4E70],
     region = [0x5370, 0x5EA6],
     flag = [0xD83C, 0xDDEE, 0xD83C, 0xDDF3], countryCode = ascii ''in''\<rparr>,
   \<lparr>code = ascii ''waw'', name = [0x534E, 0x6C99],
     region = [0x6CE2, 0x5170],
     flag = [0xD83C, 0xDDF5, 0xD83C, 0xDDF1], countryCode = ascii ''pl''\<rparr>,
   \<lparr>code = ascii ''fra'', name = [0x6CD5, 0x5170, 0x514B, 0x798F],
     region = [0x5FB7, 0x56FD],
     flag = [0xD83C, 0xDDE9, 0xD83C, 0xDDEA], countryCode = ascii ''de''\<rparr>,
   \<lparr>code = ascii ''lon'', name = [0x4F26, 0x6566],
     region = [0x82F1, 0x56FD],
     flag = [0xD83C, 0xDDEC, 0xD83C, 0xDDE7], countryCode = ascii ''gb''\<rparr>,
   \<lparr>code = ascii ''hil'', name = [0x4FC4, 0x52D2, 0x5188],
     region = [0x7F8E, 0x56FD, 0x897F, 0x90E8],
     flag = [0xD83C, 0xDDFA, 0xD83C, 0xDDF8], countryCode = ascii ''us''\<rparr>,
   \<lparr>code = ascii ''vin'', name = [0x5F17, 0x5409, 0x5C3C, 0x4E9A],
     region = [0x7F8E, 0x56FD, 0x4E1C, 0x90E8],
     flag = [0xD83C, 0xDDFA, 0xD83C, 0xDDF8], countryCode = ascii ''us''\<rparr>,
   \<lparr>code = ascii ''sgp'', name = [0x65B0, 0x52A0, 0x5761],
     region = [0x65B0, 0x52A0, 0x5761],
     flag = [0xD83C, 0xDDF8, 0xD83C, 0xDDEC], countryCode = ascii ''sg''\<rparr>,
   \<lparr>code = ascii ''syd'', name = [0x6089, 0x5C3C],
     region = [0x6FB3, 0x5927, 0x5229, 0x4E9A],
     flag = [0xD83C, 0xDDE6, 0xD83C, 0xDDFA], countryCode = ascii ''au''\<rparr>]"

text \<open>A lowercase ASCII letter: a code unit from \<open>a\<close> (0x61) to \<open>z\<close> (0x7A).\<close>

definition is_lower_ascii :: "16 word \<Rightarrow> bool" where
  "is_lower_ascii u \<longleftrightarrow> 0x61 \<le> u \<and> u \<le> 0x7A"

section \<open>The API base URL (constants.ts)\<close>

text \<open>
  \<open>API_URL\<close> is computed once from the build environment and the browser's location.
  Both may be absent: \<open>import.meta\<close>, its \<open>env\<close> and \<open>VITE_API_URL\<close> are optional,
  and \<open>window\<close> does not exist outside a browser.
\<close>

record Location =
  origin :: utf16
  hostname :: utf16

record ImportMetaEnv =
  VITE_API_URL :: "utf16 option"

record ImportMeta =
  env :: "ImportMetaEnv option"

definition startsWith :: "utf16 \<Rightarrow> utf16 \<Rightarrow> bool" where
  "startsWith s p \<longleftrightarrow> take (length p) s = p"

text \<open>\<open>metaEnv?.VITE_API_URL\<close>, with \<open>metaEnv\<close> read from \<open>import.meta\<close> when it exists.\<close>

definition envUrl_of :: "ImportMeta option \<Rightarrow> utf16 option" where
  "envUrl_of import_meta =
     (let metaEnv = (case import_meta of None \<Rightarrow> None | Some m \<Rightarrow> env m)
      in case metaEnv of None \<Rightarrow> None | Some e \<Rightarrow> VITE_API_URL e)"

text \<open>\<open>typeof window !== 'undefined' ? window.location.origin : ''\<close>, and the same for the host name.\<close>

definition origin_of :: "Location option \<Rightarrow> utf16" where
  "origin_of window = (case window of Some w \<Rightarrow> origin w | None \<Rightarrow> [])"

definition hostname_of :: "Location option \<Rightarrow> utf16" where
  "hostname_of window = (case window of Some w \<Rightarrow> hostname w | None \<Rightarrow> [])"

text \<open>The part of \<open>API_URL\<close> after the override: detection from the browser's location.\<close>

definition API_URL_detect :: "Location option \<Rightarrow> utf16" where
  "API_URL_detect window =
     (let hostname = hostname_of window
      in if hostname = ascii ''localhost'' \<or> hostname = ascii ''127.0.0.1''
         then ascii ''http://localhost:19998/api''
         else (let origin = origin_of window
               in if origin \<noteq> [] then origin @ ascii ''/api'' else ascii ''/api''))"

text \<open>\<open>if (envUrl)\<close> holds for a non-empty string only: \<open>undefined\<close> and \<open>''\<close> are falsy.\<close>

definition API_URL :: "ImportMeta option \<Rightarrow> Location option \<Rightarrow> utf16" where
  "API_URL import_meta window =
     (case envUrl_of import_meta of
        None \<Rightarrow> API_URL_detect window
      | Some envUrl \<Rightarrow>
          if envUrl \<noteq> [] then
            (if startsWith envUrl (ascii ''/'') then
               (let origin = origin_of window
                in if origin \<noteq> [] then origin @ envUrl else envUrl)
             else envUrl)
          else API_URL_detect window)"

text \<open>
  Modelled from the spec: the backend's listen port, environment variable \<open>PORT\<close> with
  default 19998. The backend is not among the sources.
\<close>

definition DEFAULT_PORT :: nat where
  "DEFAULT_PORT = 19998"

text \<open>The decimal digits of a port number, as it stands in a URL.\<close>

definition digit :: "nat \<Rightarrow> char" where
  "digit d = ''0123456789'' ! d"

fun decimal :: "nat \<Rightarrow> string" where
  "decimal n = (if n < 10 then [digit n] else decimal (n div 10) @ [digit (n mod 10)])"

declare decimal.simps [simp del]

section \<open>Values of the wire format\<close>

text \<open>
  A response body is whatever \<open>JSON.parse\<close> gives, and the pages read it without a
  check of its shape, so it is a JavaScript value. The numbers of these bodies are counts,
  intervals and identifiers: integers. An object keeps its fields in order; a read takes
  the last field of a name, as \<open>JSON.parse\<close> does with a repeated key.
\<close>

datatype jsval =
    JUndefined
  | JNull
  | JBool bool
  | JNum int
  | JStr utf16
  | JArr "jsval list"
  | JObj "(utf16 \<times> jsval) list"

datatype js_error = TypeError

fun truthy :: "jsval \<Rightarrow> bool" where
  "truthy JUndefined = False"
| "truthy JNull = False"
| "truthy (JBool b) = b"
| "truthy (JNum n) = (n \<noteq> 0)"
| "truthy (JStr s) = (s \<noteq> [])"
| "truthy (JArr xs) = True"
| "truthy (JObj fs) = True"

text \<open>\<open>a || b\<close>\<close>

definition js_or :: "jsval \<Rightarrow> jsval \<Rightarrow> jsval" where
  "js_or a b = (if truthy a then a else b)"

definition field :: "(utf16 \<times> jsval) list \<Rightarrow> utf16 \<Rightarrow> jsval" where
  "field fs k = (case map_of (rev fs) k of Some v \<Rightarrow> v | None \<Rightarrow> JUndefined)"

text \<open>
  \<open>v.k\<close>: a TypeError on \<open>undefined\<close> and \<open>null\<close>. None of the names the pages read
  (\<open>running\<close>, \<open>subscriptions_count\<close>, \<open>check_interval\<close>, \<open>message\<close>, \<open>error\<close>,
  \<open>isPending\<close>) is a property of a string, number, boolean or array, so a read from one
  of those is \<open>undefined\<close>.
\<close>

fun member :: "jsval \<Rightarrow> utf16 \<Rightarrow> js_error + jsval" where
  "member JUndefined k = Inl TypeError"
| "member JNull k = Inl TypeError"
| "member (JObj fs) k = Inr (field fs k)"
| "member v k = Inr JUndefined"

text \<open>\<open>v?.k\<close>: \<open>undefined\<close> where \<open>v.k\<close> would throw.\<close>

definition opt_member :: "jsval \<Rightarrow> utf16 \<Rightarrow> jsval" where
  "opt_member v k = (case member v k of Inl e \<Rightarrow> JUndefined | Inr x \<Rightarrow> x)"

text \<open>
  What the API client hands to an \<open>await\<close>: a response, or a thrown error whose
  \<open>response\<close> is absent when the server sent none (a network failure, a time-out).
\<close>

record http_response =
  status :: nat
  data :: jsval

datatype api_error = ApiError (response: "http_response option")

text \<open>\<open>error.response?.data\<close>\<close>

definition error_data :: "api_error \<Rightarrow> jsval" where
  "error_data e = (case response e of None \<Rightarrow> JUndefined | Some r \<Rightarrow> data r)"

datatype http_method = GET | POST | PUT | DELETE

record request =
  req_method :: http_method
  path :: utf16
  params :: "(utf16 \<times> utf16) list"
  body :: jsval

datatype toast_type = Success | Error | Warning | Info

text \<open>
  A toast: \<open>toast.error(msg)\<close> of sonner has a title only; \<open>showToast\<close> of the toast
  container takes \<open>type\<close>, \<open>title\<close> and an optional \<open>message\<close>.
\<close>

record toast =
  toast_type :: toast_type
  title :: jsval
  message :: jsval

section \<open>The availability monitor page (VPSMonitorPage.tsx)\<close>

subsection \<open>The monitor status\<close>

text \<open>
  \<open>monitorStatus\<close> is declared as \<open>MonitorStatus\<close> with the fields \<open>running\<close>,
  \<open>subscriptions_count\<close> and \<open>check_interval\<close>, and \<open>loadMonitorStatus\<close> stores the
  body of \<open>GET /vps-monitor/status\<close> in it as it came. The state is therefore a value of
  the wire format, and the card reads the three fields by those names.
\<close>

definition initial_monitorStatus :: jsval where
  "initial_monitorStatus =
     JObj [(ascii ''running'', JBool False),
           (ascii ''subscriptions_count'', JNum 0),
           (ascii ''check_interval'', JNum 60)]"

definition status_request :: request where
  "status_request =
     \<lparr>req_method = GET, path = ascii ''/vps-monitor/status'', params = [], body = JUndefined\<rparr>"

text \<open>
  \<open>loadMonitorStatus\<close>, given what the request came back with: a response replaces the
  state by its body, an error is logged and leaves the state as it was.
\<close>

definition loadMonitorStatus :: "api_error + http_response \<Rightarrow> jsval \<Rightarrow> jsval" where
  "loadMonitorStatus outcome monitorStatus =
     (case outcome of Inr r \<Rightarrow> data r | Inl e \<Rightarrow> monitorStatus)"

text \<open>
  The status card: the bell is on when \<open>monitorStatus.running\<close> is truthy, and the two
  tiles interpolate \<open>monitorStatus.subscriptions_count\<close> and
  \<open>monitorStatus.check_interval\<close> (the latter followed by \<open>s\<close>).
\<close>

record status_card =
  card_running :: bool
  card_subscriptions :: jsval
  card_interval :: jsval

definition render_status_card :: "jsval \<Rightarrow> js_error + status_card" where
  "render_status_card monitorStatus =
     (case member monitorStatus (ascii ''running'') of
        Inl e \<Rightarrow> Inl e
      | Inr running \<Rightarrow>
          (case member monitorStatus (ascii ''subscriptions_count'') of
             Inl e \<Rightarrow> Inl e
           | Inr subscriptions_count \<Rightarrow>
               (case member monitorStatus (ascii ''check_interval'') of
                  Inl e \<Rightarrow> Inl e
                | Inr check_interval \<Rightarrow>
                    Inr \<lparr>card_running = truthy running,
                         card_subscriptions = subscriptions_count,
                         card_interval = check_interval\<rparr>)))"





subsection \<open>Adding a subscription\<close>

text \<open>
  \<open>String.prototype.trim\<close> removes white space and line terminators from both ends:
  TAB, LF, VT, FF, CR, SPACE, NBSP, the Unicode space separators, LS, PS and the byte
  order mark. All of them are single code units.
\<close>

definition is_white_space :: "16 word \<Rightarrow> bool" where
  "is_white_space u \<longleftrightarrow>
     u \<in> {0x0009, 0x000A, 0x000B, 0x000C, 0x000D, 0x0020, 0x00A0, 0x1680,
          0x2000, 0x2001, 0x2002, 0x2003, 0x2004, 0x2005, 0x2006, 0x2007, 0x2008, 0x2009,
          0x200A, 0x2028, 0x2029, 0x202F, 0x205F, 0x3000, 0xFEFF}"

definition trim :: "utf16 \<Rightarrow> utf16" where
  "trim s = dropWhile is_white_space (rev (dropWhile is_white_space (rev s)))"

text \<open>
  \<open>s.split(sep)\<close> for a separator of one code unit: the pieces between the
  separators, so one piece more than there are separators, and \<open>['']\<close> for the empty string.
\<close>

fun split :: "16 word \<Rightarrow> utf16 \<Rightarrow> utf16 list" where
  "split sep [] = [[]]"
| "split sep (c # cs) =
     (if c = sep then [] # split sep cs
      else (case split sep cs of [] \<Rightarrow> [[c]] | w # ws \<Rightarrow> (c # w) # ws))"

text \<open>\<open>xs.join(sep)\<close>\<close>

fun join :: "utf16 \<Rightarrow> utf16 list \<Rightarrow> utf16" where
  "join sep [] = []"
| "join sep [x] = x"
| "join sep (x # y # ys) = x @ sep @ join sep (y # ys)"

definition comma :: "16 word" where
  "comma = 0x002C"

record form_data =
  form_vpsModel :: utf16
  form_ovhSubsidiary :: utf16
  form_datacenters :: utf16
  form_notifyAvailable :: bool
  form_notifyUnavailable :: bool

definition initial_formData :: form_data where
  "initial_formData =
     \<lparr>form_vpsModel = ascii ''vps-2025-model1'', form_ovhSubsidiary = ascii ''IE'',
      form_datacenters = [], form_notifyAvailable = True, form_notifyUnavailable = False\<rparr>"

definition vpsModels :: "(utf16 \<times> utf16) list" where
  "vpsModels =
     [(ascii ''vps-2025-model1'', ascii ''VPS-1''),
      (ascii ''vps-2025-model2'', ascii ''VPS-2''),
      (ascii ''vps-2025-model3'', ascii ''VPS-3''),
      (ascii ''vps-2025-model4'', ascii ''VPS-4''),
      (ascii ''vps-2025-model5'', ascii ''VPS-5''),
      (ascii ''vps-2025-model6'', ascii ''VPS-6'')]"

text \<open>\<open>formData.datacenters.split(',').map(dc => dc.trim()).filter(dc => dc)\<close>\<close>

definition parse_datacenters :: "utf16 \<Rightarrow> utf16 list" where
  "parse_datacenters input = filter (\<lambda>dc. dc \<noteq> []) (map trim (split comma input))"

text \<open>The request of \<open>handleAddSubscription\<close>: \<open>api.post\<close> with the object literal as its body.\<close>

definition subscription_request :: "form_data \<Rightarrow> request" where
  "subscription_request formData =
     (let datacenters = parse_datacenters (form_datacenters formData)
      in \<lparr>req_method = POST, path = ascii ''/vps-monitor/subscriptions'', params = [],
          body = JObj
            [(ascii ''planCode'', JStr (form_vpsModel formData)),
             (ascii ''ovhSubsidiary'', JStr (form_ovhSubsidiary formData)),
             (ascii ''datacenters'',
                JArr (map JStr (if length datacenters > 0 then datacenters else []))),
             (ascii ''monitorLinux'', JBool True),
             (ascii ''monitorWindows'', JBool True),
             (ascii ''notifyAvailable'', JBool (form_notifyAvailable formData)),
             (ascii ''notifyUnavailable'', JBool (form_notifyUnavailable formData))]\<rparr>)"

text \<open>
  The texts of the page, as code units: \<open>TEXT_subscribed\<close> is the prefix of the success
  toast ("subscribed", then a space), \<open>TEXT_subscribe_failed\<close> the fallback of the error
  toast ("subscription failed"), \<open>TEXT_monitor_all\<close> the line of a subscription with no
  datacenters ("monitoring all datacenters") and \<open>TEXT_monitor_listed\<close> the prefix of the
  line that lists them ("monitoring datacenters", a colon and a space).
\<close>

definition TEXT_subscribed :: utf16 where
  "TEXT_subscribed = [0x5DF2, 0x8BA2, 0x9605, 0x0020]"

definition TEXT_subscribe_failed :: utf16 where
  "TEXT_subscribe_failed = [0x8BA2, 0x9605, 0x5931, 0x8D25]"

definition TEXT_monitor_all :: utf16 where
  "TEXT_monitor_all = [0x76D1, 0x63A7, 0x6240, 0x6709, 0x6570, 0x636E, 0x4E2D, 0x5FC3]"

definition TEXT_monitor_listed :: utf16 where
  "TEXT_monitor_listed = [0x76D1, 0x63A7, 0x6570, 0x636E, 0x4E2D, 0x5FC3, 0x003A, 0x0020]"

text \<open>\<open>selectedModel?.label || formData.vpsModel\<close>, with \<open>find\<close> taking the first match.\<close>

definition modelLabel :: "utf16 \<Rightarrow> utf16" where
  "modelLabel vpsModel =
     (case find (\<lambda>m. fst m = vpsModel) vpsModels of
        Some m \<Rightarrow> if snd m \<noteq> [] then snd m else vpsModel
      | None \<Rightarrow> vpsModel)"

record add_form_state =
  formData :: form_data
  showAddForm :: bool

text \<open>
  \<open>handleAddSubscription\<close>, given what the request came back with. It returns the
  request it sent, the state of the form afterwards and the toast. On success the form is
  reset and closed (the page then reloads the subscriptions and the status); on an error
  the form stays and the toast shows \<open>error.response?.data?.message\<close>, or the fixed text.
\<close>

definition handleAddSubscription ::
  "api_error + http_response \<Rightarrow> add_form_state \<Rightarrow> request \<times> add_form_state \<times> toast" where
  "handleAddSubscription outcome st =
     (let sent = subscription_request (formData st)
      in case outcome of
           Inr r \<Rightarrow>
             (sent,
              st\<lparr>formData := initial_formData, showAddForm := False\<rparr>,
              \<lparr>toast_type = Success,
               title = JStr (TEXT_subscribed @ modelLabel (form_vpsModel (formData st))),
               message = JUndefined\<rparr>)
         | Inl error \<Rightarrow>
             (let errorMsg = js_or (opt_member (error_data error) (ascii ''message''))
                                   (JStr TEXT_subscribe_failed)
              in (sent, st, \<lparr>toast_type = Error, title = errorMsg, message = JUndefined\<rparr>)))"

subsection \<open>The list of subscriptions\<close>

record VPSSubscription =
  sub_id :: utf16
  planCode :: utf16
  ovhSubsidiary :: utf16
  datacenters :: "utf16 list"
  monitorLinux :: bool
  monitorWindows :: bool
  notifyAvailable :: bool
  notifyUnavailable :: bool
  lastStatus :: jsval
  createdAt :: utf16

text \<open>The line under a subscription's name: the datacenters it watches.\<close>

definition subscription_datacenters_line :: "VPSSubscription \<Rightarrow> utf16" where
  "subscription_datacenters_line sub =
     (if length (datacenters sub) > 0
      then TEXT_monitor_listed @ join (ascii '', '') (datacenters sub)
      else TEXT_monitor_all)"

section \<open>The server control page: a failed hardware replacement\<close>

text \<open>
  \<open>TEXT_replace_pending\<close> ("a hardware replacement request is already pending"),
  \<open>TEXT_replace_failed\<close> ("the hardware replacement request failed") and
  \<open>TEXT_unknown_error\<close> ("unknown error") are the fixed texts of the handler.
\<close>

definition TEXT_replace_pending :: utf16 where
  "TEXT_replace_pending =
     [0x5DF2, 0x6709, 0x5F85, 0x5904, 0x7406, 0x7684, 0x786C, 0x4EF6, 0x66F4, 0x6362, 0x8BF7, 0x6C42]"

definition TEXT_replace_failed :: utf16 where
  "TEXT_replace_failed = [0x786C, 0x4EF6, 0x66F4, 0x6362, 0x8BF7, 0x6C42, 0x5931, 0x8D25]"

definition TEXT_unknown_error :: utf16 where
  "TEXT_unknown_error = [0x672A, 0x77E5, 0x9519, 0x8BEF]"

text \<open>
  The \<open>catch\<close> block of \<open>handleHardwareReplace\<close>. In the first branch
  \<open>error.response.data.error\<close> is read without \<open>?.\<close>; it cannot throw there, since a
  truthy \<open>isPending\<close> was just read from the same object.
\<close>

definition handleHardwareReplace_catch :: "api_error \<Rightarrow> toast" where
  "handleHardwareReplace_catch error =
     (if truthy (opt_member (error_data error) (ascii ''isPending''))
      then \<lparr>toast_type = Warning,
            title = js_or (opt_member (error_data error) (ascii ''error''))
                          (JStr TEXT_replace_pending),
            message = JUndefined\<rparr>
      else \<lparr>toast_type = Error,
            title = JStr TEXT_replace_failed,
            message = js_or (opt_member (error_data error) (ascii ''error''))
                            (JStr TEXT_unknown_error)\<rparr>)"

section \<open>The dashboard (Dashboard.tsx)\<close>

record QueueItem =
  item_id :: utf16
  item_planCode :: utf16
  item_datacenter :: "utf16 option"
  item_datacenters :: "utf16 list option"
  item_status :: utf16
  retryCount :: int
  retryInterval :: int
  item_createdAt :: utf16
  item_accountId :: "utf16 option"

text \<open>The two requests of \<open>fetchData\<close>, sent together: \<open>api.get(`/stats`)\<close> and \<open>api.get(`/queue/all`)\<close>.\<close>

definition stats_request :: request where
  "stats_request = \<lparr>req_method = GET, path = ascii ''/stats'', params = [], body = JUndefined\<rparr>"

definition queue_request :: request where
  "queue_request = \<lparr>req_method = GET, path = ascii ''/queue/all'', params = [], body = JUndefined\<rparr>"

definition fetchData_requests :: "request list" where
  "fetchData_requests = [stats_request, queue_request]"

text \<open>Only the active items are shown, at most three of them.\<close>

definition activeItems :: "QueueItem list \<Rightarrow> QueueItem list" where
  "activeItems queue =
     take 3 (filter (\<lambda>item. item_status item \<in> set [ascii ''running'', ascii ''pending'', ascii ''paused''])
                    queue)"

record dashboard_state =
  stats :: jsval
  queueItems :: "QueueItem list"
  isLoading :: bool
  fallbackToastShown :: bool

text \<open>
  \<open>fetchData\<close>, given what \<open>Promise.all\<close> came back with: the two bodies, or the error
  of the request that failed first. With the bodies it stores the statistics, tells the
  operator once that the server cache is empty (the text of that toast is left out), and
  keeps the active items; an error is only logged. Either way the page stops loading.
\<close>

definition fetchData ::
  "bool \<Rightarrow> api_error + (jsval \<times> QueueItem list) \<Rightarrow> dashboard_state \<Rightarrow> dashboard_state \<times> toast_type option" where
  "fetchData isAuthenticated outcome st =
     (case outcome of
        Inl error \<Rightarrow> (st\<lparr>isLoading := False\<rparr>, None)
      | Inr (statsData, queueData) \<Rightarrow>
          (let notify = (\<not> fallbackToastShown st \<and> isAuthenticated \<and>
                         opt_member statsData (ascii ''totalServers'') = JNum 0)
           in (st\<lparr>stats := statsData,
                   queueItems := activeItems queueData,
                   isLoading := False,
                   fallbackToastShown := (fallbackToastShown st \<or> notify)\<rparr>,
               if notify then Some Info else None)))"

subsection \<open>The list-tasks operation of the control plane\<close>

datatype scope = ScopeSelf | ScopeAll

text \<open>
  Modelled from the spec: the value of the \<open>scope\<close> query parameter, \<open>self\<close> or \<open>all\<close>.
  The HTTP control plane is not among the sources.
\<close>

definition scope_value :: "scope \<Rightarrow> utf16" where
  "scope_value sc = (case sc of ScopeSelf \<Rightarrow> ascii ''self'' | ScopeAll \<Rightarrow> ascii ''all'')"

text \<open>
  Modelled from the spec: \<open>GET /queue?scope=self|all\<close>, the request that lists the
  tasks. The HTTP control plane is not among the sources.
\<close>

definition list_tasks_request :: "scope \<Rightarrow> request" where
  "list_tasks_request sc =
     \<lparr>req_method = GET, path = ascii ''/queue'', params = [(ascii ''scope'', scope_value sc)],
      body = JUndefined\<rparr>"

text \<open>
  Modelled from the spec: the tasks the operation returns, "filtered to the requesting
  account unless \<open>all\<close>"; \<open>owner\<close> gives a task's account. The HTTP control plane is not
  among the sources.
\<close>

definition list_tasks :: "('t \<Rightarrow> utf16) \<Rightarrow> scope \<Rightarrow> utf16 \<Rightarrow> 't list \<Rightarrow> 't list" where
  "list_tasks owner sc account tasks =
     (if sc = ScopeAll then tasks else filter (\<lambda>t. owner t = account) tasks)"

section \<open>The queue page (QueuePage, LogsPage.tsx)\<close>













section \<open>The purchase history, grouped by task (HistoryPage.tsx)\<close>

text \<open>
  An entry of the purchase history. \<open>price\<close> is left out: the grouped view does not
  read it.
\<close>

record PurchaseHistory =
  entry_id :: utf16
  taskId :: "utf16 option"
  entry_planCode :: utf16
  datacenter :: utf16
  options :: "utf16 list option"
  entry_status :: utf16
  orderId :: "utf16 option"
  orderUrl :: "utf16 option"
  errorMessage :: "utf16 option"
  purchaseTime :: utf16
  sequence :: "int option"
  accountId :: "utf16 option"

text \<open>\<open>it.taskId || it.id\<close>: the entry's own id when \<open>taskId\<close> is absent or empty.\<close>

definition group_key :: "PurchaseHistory \<Rightarrow> utf16" where
  "group_key it =
     (case taskId it of
        Some t \<Rightarrow> if t \<noteq> [] then t else entry_id it
      | None \<Rightarrow> entry_id it)"

text \<open>
  The \<open>Map\<close> from key to entries, in the order the keys were first set:
  \<open>if (!map.has(key)) map.set(key, []); map.get(key)!.push(it)\<close>.
\<close>

fun map_push ::
  "utf16 \<Rightarrow> PurchaseHistory \<Rightarrow> (utf16 \<times> PurchaseHistory list) list \<Rightarrow> (utf16 \<times> PurchaseHistory list) list" where
  "map_push k it [] = [(k, [it])]"
| "map_push k it ((k', its) # m) =
     (if k' = k then (k', its @ [it]) # m else (k', its) # map_push k it m)"

definition build_map :: "PurchaseHistory list \<Rightarrow> (utf16 \<times> PurchaseHistory list) list" where
  "build_map filteredHistory = foldl (\<lambda>m it. map_push (group_key it) it m) [] filteredHistory"

text \<open>
  \<open>new Date(s).getTime()\<close> is a parameter \<open>getTime\<close> of the view: the milliseconds
  since the epoch, or \<open>None\<close> for \<open>NaN\<close> (a string that is no date). The comparator is
  \<open>getTime(b) - getTime(a)\<close>; only its sign counts, which is that of the exact
  difference, and a \<open>NaN\<close> is read as \<open>+0\<close> by the sort.
\<close>

definition compare_desc :: "(utf16 \<Rightarrow> int option) \<Rightarrow> PurchaseHistory \<Rightarrow> PurchaseHistory \<Rightarrow> int" where
  "compare_desc getTime a b =
     (case (getTime (purchaseTime b), getTime (purchaseTime a)) of
        (Some tb, Some ta) \<Rightarrow> tb - ta
      | _ \<Rightarrow> 0)"

text \<open>
  \<open>Array.prototype.sort\<close> with a comparator is stable. For a consistent comparator
  that fixes the result, which is computed here by insertion; for an inconsistent one
  (entries with a \<open>NaN\<close> time) the language leaves the order to the engine, and the
  insertion keeps two entries in their order whenever their comparison is \<open>+0\<close>.
\<close>

fun insert_sorted :: "('a \<Rightarrow> 'a \<Rightarrow> int) \<Rightarrow> 'a \<Rightarrow> 'a list \<Rightarrow> 'a list" where
  "insert_sorted cmp x [] = [x]"
| "insert_sorted cmp x (y # ys) =
     (if cmp x y \<le> 0 then x # y # ys else y # insert_sorted cmp x ys)"

definition js_sort :: "('a \<Rightarrow> 'a \<Rightarrow> int) \<Rightarrow> 'a list \<Rightarrow> 'a list" where
  "js_sort cmp xs = foldr (insert_sorted cmp) xs []"

record history_group =
  key :: utf16
  items :: "PurchaseHistory list"

definition groups :: "(utf16 \<Rightarrow> int option) \<Rightarrow> PurchaseHistory list \<Rightarrow> history_group list" where
  "groups getTime filteredHistory =
     map (\<lambda>(k, its). \<lparr>key = k, items = js_sort (compare_desc getTime) its\<rparr>)
         (build_map filteredHistory)"

text \<open>
  The head of a group's card: its first item, the counts by status, and the time
  range, which formats the \<open>purchaseTime\<close> of the last item, then that of the first.
  Reading \<open>g.items[0].purchaseTime\<close> of an empty group would be a TypeError.
\<close>

record group_head =
  head :: PurchaseHistory
  successCount :: nat
  failedCount :: nat
  timeRange_from :: utf16
  timeRange_to :: utf16

definition render_group :: "history_group \<Rightarrow> js_error + group_head" where
  "render_group g =
     (case items g of
        [] \<Rightarrow> Inl TypeError
      | first # rest \<Rightarrow>
          Inr \<lparr>head = first,
               successCount = length (filter (\<lambda>x. entry_status x = ascii ''success'') (items g)),
               failedCount = length (filter (\<lambda>x. entry_status x = ascii ''failed'') (items g)),
               timeRange_from = purchaseTime (last (items g)),
               timeRange_to = purchaseTime first\<rparr>)"

text \<open>
  \<open>a\<close> is at least as recent as \<open>b\<close>: both times are dates, and that of \<open>a\<close> is not
  the earlier one.
\<close>

definition not_older :: "(utf16 \<Rightarrow> int option) \<Rightarrow> PurchaseHistory \<Rightarrow> PurchaseHistory \<Rightarrow> bool" where
  "not_older getTime a b \<longleftrightarrow>
     (case (getTime (purchaseTime a), getTime (purchaseTime b)) of
        (Some ta, Some tb) \<Rightarrow> tb \<le> ta
      | _ \<Rightarrow> False)"

subsection \<open>A sample history\<close>

text \<open>
  Three successful purchases of one plan: two attempts of a task, thirty seconds and a
  minute after the first, and between them an entry without a task. \<open>sample_getTime\<close>
  gives the milliseconds of the three time stamps.
\<close>

definition sample_entry :: "utf16 \<Rightarrow> utf16 option \<Rightarrow> utf16 \<Rightarrow> PurchaseHistory" where
  "sample_entry i t time =
     \<lparr>entry_id = i, taskId = t, entry_planCode = ascii ''24sk202'', datacenter = ascii ''gra'',
      options = None, entry_status = ascii ''success'', orderId = None, orderUrl = None,
      errorMessage = None, purchaseTime = time, sequence = None, accountId = None\<rparr>"

definition sample_history :: "PurchaseHistory list" where
  "sample_history =
     [sample_entry (ascii ''h1'') (Some (ascii ''task-1'')) (ascii ''2025-03-01T10:00:00Z''),
      sample_entry (ascii ''h2'') None (ascii ''2025-03-01T10:00:30Z''),
      sample_entry (ascii ''h3'') (Some (ascii ''task-1'')) (ascii ''2025-03-01T10:01:00Z'')]"

definition sample_getTime :: "utf16 \<Rightarrow> int option" where
  "sample_getTime =
     map_of [(ascii ''2025-03-01T10:00:00Z'', 1740823200000),
             (ascii ''2025-03-01T10:00:30Z'', 1740823230000),
             (ascii ''2025-03-01T10:01:00Z'', 1740823260000)]"

text \<open>
  Three attempts of one task, of which the second carries a \<open>purchaseTime\<close> that is no
  date: \<open>sample_getTime\<close> gives \<open>None\<close> for it.
\<close>

definition sample_undated_history :: "PurchaseHistory list" where
  "sample_undated_history =
     [sample_entry (ascii ''h1'') (Some (ascii ''task-1'')) (ascii ''2025-03-01T10:00:00Z''),
      sample_entry (ascii ''h2'') (Some (ascii ''task-1'')) (ascii ''unknown''),
      sample_entry (ascii ''h3'') (Some (ascii ''task-1'')) (ascii ''2025-03-01T10:01:00Z'')]"

section \<open>Retry-interval validation\<close>






text \<open>
  Claim C9. The validation also has an upper bound: every integer above
  \<open>MAX_RETRY_INTERVAL\<close> (3600) is rejected, and an interval is accepted exactly when
  it lies between 15 and 3600.
\<close>

theorem validateRetryInterval_range:
  "MAX_RETRY_INTERVAL = 3600 \<and>
   (\<forall>n. n > MAX_RETRY_INTERVAL \<longrightarrow> \<not> validateRetryInterval n) \<and>
   (\<forall>n. validateRetryInterval n \<longleftrightarrow> 15 \<le> n \<and> n \<le> 3600)"
  by (simp add: validateRetryInterval_def MIN_RETRY_INTERVAL_def MAX_RETRY_INTERVAL_def)

theorem validateRetryInterval_range_witness:
  "3601 > MAX_RETRY_INTERVAL \<and> \<not> validateRetryInterval 3601 \<and>
   validateRetryInterval 3600 \<and> validateRetryInterval 15"
proof -
  have above: "3601 > MAX_RETRY_INTERVAL"
    by (simp add: MAX_RETRY_INTERVAL_def)
  from validateRetryInterval_range
  have r: "3601 > MAX_RETRY_INTERVAL \<longrightarrow> \<not> validateRetryInterval 3601"
    and a: "validateRetryInterval 3600 \<longleftrightarrow> (15::int) \<le> 3600 \<and> (3600::int) \<le> 3600"
    and b: "validateRetryInterval 15 \<longleftrightarrow> (15::int) \<le> 15 \<and> (15::int) \<le> 3600"
    by blast+
  from above r a b show ?thesis by simp
qed

section \<open>Datacenter codes\<close>

text \<open>
  Claim C10. Every entry of \<open>OVH_DATACENTERS\<close> has a code of exactly three lowercase
  ASCII letters, and the codes of the table are pairwise distinct.
\<close>

theorem OVH_DATACENTERS_codes:
  "(\<forall>d \<in> set OVH_DATACENTERS. length (code d) = 3 \<and> (\<forall>u \<in> set (code d). is_lower_ascii u)) \<and>
   distinct (map code OVH_DATACENTERS)"
  by (simp add: OVH_DATACENTERS_def ascii_def is_lower_ascii_def)

theorem OVH_DATACENTERS_codes_witness:
  "OVH_DATACENTERS ! 3 \<in> set OVH_DATACENTERS \<and> code (OVH_DATACENTERS ! 3) = ascii ''bhs'' \<and>
   length (code (OVH_DATACENTERS ! 3)) = 3 \<and>
   is_lower_ascii (code (OVH_DATACENTERS ! 3) ! 0) \<and>
   code (OVH_DATACENTERS ! 3) \<noteq> code (OVH_DATACENTERS ! 0)"
proof -
  have mem: "OVH_DATACENTERS ! 3 \<in> set OVH_DATACENTERS"
    by (simp add: OVH_DATACENTERS_def)
  have bhs: "code (OVH_DATACENTERS ! 3) = ascii ''bhs''"
    by (simp add: OVH_DATACENTERS_def)
  have first: "code (OVH_DATACENTERS ! 3) ! 0 \<in> set (code (OVH_DATACENTERS ! 3))"
    by (simp add: bhs ascii_def)
  from OVH_DATACENTERS_codes mem
  have len: "length (code (OVH_DATACENTERS ! 3)) = 3"
    and low: "\<forall>u \<in> set (code (OVH_DATACENTERS ! 3)). is_lower_ascii u"
    by blast+
  from OVH_DATACENTERS_codes have "distinct (map code OVH_DATACENTERS)"
    by blast
  then have "(map code OVH_DATACENTERS ! 3 = map code OVH_DATACENTERS ! 0) = ((3::nat) = 0)"
    by (rule nth_eq_iff_index_eq) (simp_all add: OVH_DATACENTERS_def)
  then have ne: "code (OVH_DATACENTERS ! 3) \<noteq> code (OVH_DATACENTERS ! 0)"
    by (simp add: OVH_DATACENTERS_def)
  from mem bhs len low first ne show ?thesis by blast
qed

section \<open>The API base URL\<close>

lemma decimal_DEFAULT_PORT: "decimal DEFAULT_PORT = ''19998''"
  by (simp add: DEFAULT_PORT_def decimal.simps digit_def)

text \<open>
  Claim C7. The backend listens on port 19998 by default, and the client's base URL
  agrees with it: with no \<open>VITE_API_URL\<close> override (none set, or an empty one) and the
  page served from the host \<open>localhost\<close> or \<open>127.0.0.1\<close>, \<open>API_URL\<close> is
  \<open>http://localhost:19998/api\<close>, the local address at the default port.
\<close>

theorem API_URL_localhost:
  assumes "envUrl_of import_meta = None \<or> envUrl_of import_meta = Some []"
    and "window = Some w"
    and "hostname w = ascii ''localhost'' \<or> hostname w = ascii ''127.0.0.1''"
  shows "API_URL import_meta window = ascii ''http://localhost:19998/api'' \<and>
         API_URL import_meta window = ascii (''http://localhost:'' @ decimal DEFAULT_PORT @ ''/api'')"
proof -
  from assms(2,3) have "API_URL_detect window = ascii ''http://localhost:19998/api''"
    by (auto simp: API_URL_detect_def hostname_of_def)
  with assms(1) have "API_URL import_meta window = ascii ''http://localhost:19998/api''"
    by (auto simp: API_URL_def)
  then show ?thesis by (simp add: decimal_DEFAULT_PORT)
qed

theorem API_URL_localhost_witness:
  "API_URL (Some \<lparr>env = Some \<lparr>VITE_API_URL = None\<rparr>\<rparr>)
           (Some \<lparr>origin = ascii ''http://127.0.0.1:5173'', hostname = ascii ''127.0.0.1''\<rparr>)
     = ascii ''http://localhost:19998/api''"
proof -
  have e: "envUrl_of (Some \<lparr>env = Some \<lparr>VITE_API_URL = None\<rparr>\<rparr>) = None \<or>
           envUrl_of (Some \<lparr>env = Some \<lparr>VITE_API_URL = None\<rparr>\<rparr>) = Some []"
    by (simp add: envUrl_of_def)
  have h: "hostname \<lparr>origin = ascii ''http://127.0.0.1:5173'', hostname = ascii ''127.0.0.1''\<rparr>
             = ascii ''localhost'' \<or>
           hostname \<lparr>origin = ascii ''http://127.0.0.1:5173'', hostname = ascii ''127.0.0.1''\<rparr>
             = ascii ''127.0.0.1''"
    by simp
  from API_URL_localhost [OF e refl h] show ?thesis by blast
qed

section \<open>The monitor status\<close>

lemma render_status_card_obj:
  "render_status_card (JObj fs) =
     Inr \<lparr>card_running = truthy (field fs (ascii ''running'')),
          card_subscriptions = field fs (ascii ''subscriptions_count''),
          card_interval = field fs (ascii ''check_interval'')\<rparr>"
  by (simp add: render_status_card_def)


lemma failed_loads_keep_status:
  "foldl (\<lambda>st e. loadMonitorStatus (Inl e) st) st es = st"
  by (induction es) (simp_all add: loadMonitorStatus_def)

text \<open>
  Claim C8. The default check interval is 60 seconds: the monitor status starts as
  not running, with no subscriptions and a check interval of 60, it stays so while no
  status response has arrived (every load so far failed), and once a response has
  arrived the card shows the check interval that the response reports.
\<close>

theorem monitor_status_default:
  "initial_monitorStatus =
     JObj [(ascii ''running'', JBool False), (ascii ''subscriptions_count'', JNum 0),
           (ascii ''check_interval'', JNum 60)] \<and>
   render_status_card initial_monitorStatus =
     Inr \<lparr>card_running = False, card_subscriptions = JNum 0, card_interval = JNum 60\<rparr> \<and>
   foldl (\<lambda>st e. loadMonitorStatus (Inl e) st) initial_monitorStatus es = initial_monitorStatus \<and>
   render_status_card (loadMonitorStatus (Inr \<lparr>status = sc, data = JObj fs\<rparr>) st) =
     Inr \<lparr>card_running = truthy (field fs (ascii ''running'')),
          card_subscriptions = field fs (ascii ''subscriptions_count''),
          card_interval = field fs (ascii ''check_interval'')\<rparr> \<and>
   render_status_card (loadMonitorStatus
       (Inr \<lparr>status = sc, data = JObj [(ascii ''running'', running),
                                        (ascii ''subscriptions_count'', subscriptions_count),
                                        (ascii ''check_interval'', JNum check_interval)]\<rparr>) st) =
     Inr \<lparr>card_running = truthy running, card_subscriptions = subscriptions_count,
          card_interval = JNum check_interval\<rparr>"
proof (intro conjI)
  show "initial_monitorStatus =
     JObj [(ascii ''running'', JBool False), (ascii ''subscriptions_count'', JNum 0),
           (ascii ''check_interval'', JNum 60)]"
    by (simp add: initial_monitorStatus_def)
  show "render_status_card initial_monitorStatus =
     Inr \<lparr>card_running = False, card_subscriptions = JNum 0, card_interval = JNum 60\<rparr>"
    by (simp add: initial_monitorStatus_def render_status_card_obj field_def ascii_def)
  show "foldl (\<lambda>st e. loadMonitorStatus (Inl e) st) initial_monitorStatus es = initial_monitorStatus"
    by (rule failed_loads_keep_status)
  show "render_status_card (loadMonitorStatus (Inr \<lparr>status = sc, data = JObj fs\<rparr>) st) =
     Inr \<lparr>card_running = truthy (field fs (ascii ''running'')),
          card_subscriptions = field fs (ascii ''subscriptions_count''),
          card_interval = field fs (ascii ''check_interval'')\<rparr>"
    by (simp add: loadMonitorStatus_def render_status_card_obj)
  show "render_status_card (loadMonitorStatus
       (Inr \<lparr>status = sc, data = JObj [(ascii ''running'', running),
                                        (ascii ''subscriptions_count'', subscriptions_count),
                                        (ascii ''check_interval'', JNum check_interval)]\<rparr>) st) =
     Inr \<lparr>card_running = truthy running, card_subscriptions = subscriptions_count,
          card_interval = JNum check_interval\<rparr>"
    by (simp add: loadMonitorStatus_def render_status_card_obj field_def ascii_def)
qed





section \<open>Error messages of failed requests\<close>

lemma toast_of_failed_subscription:
  "snd (snd (handleAddSubscription (Inl e) st)) =
     \<lparr>toast_type = Error,
      title = js_or (opt_member (error_data e) (ascii ''message'')) (JStr TEXT_subscribe_failed),
      message = JUndefined\<rparr>"
  by (simp add: handleAddSubscription_def Let_def)

lemma error_data_response: "error_data (ApiError (Some \<lparr>status = sc, data = d\<rparr>)) = d"
  by (simp add: error_data_def)

text \<open>
  Claim C6, as stated: the body of a failed request is \<open>{error, code}\<close>, and the
  message a client displays is read from the field \<open>error\<close>. The subscription form
  reads \<open>message\<close>: from such a body it shows its fixed text, not the server's message.
\<close>

theorem error_envelope_counterexample:
  "snd (snd (handleAddSubscription
      (Inl (ApiError (Some \<lparr>status = 400,
              data = JObj [(ascii ''error'', JStr (ascii ''planCode is required'')),
                           (ascii ''code'', JStr (ascii ''bad_request''))]\<rparr>)))
      \<lparr>formData = initial_formData, showAddForm = True\<rparr>)) =
     \<lparr>toast_type = Error, title = JStr TEXT_subscribe_failed, message = JUndefined\<rparr> \<and>
   JStr TEXT_subscribe_failed \<noteq> JStr (ascii ''planCode is required'')"
  by (simp add: toast_of_failed_subscription error_data_response opt_member_def field_def js_or_def
      ascii_def TEXT_subscribe_failed_def)

text \<open>
  Claim C6, amended. The message a page displays for a failed request is read from the
  field its handler names. The subscription form reads \<open>message\<close>: it shows a non-empty
  \<open>message\<close> of the body, and its fixed text when \<open>message\<close> is absent or falsy, whatever
  \<open>error\<close> holds, or when there is no response. The hardware replacement handler reads
  \<open>error\<close>: it shows a non-empty \<open>error\<close> of the body, as the message of an error
  toast, or as the title of a warning when the body says \<open>isPending\<close>, and its fixed
  texts when there is no response.
\<close>

theorem error_message_fields:
  "(field fs (ascii ''message'') = JStr m \<and> m \<noteq> [] \<longrightarrow>
      snd (snd (handleAddSubscription (Inl (ApiError (Some \<lparr>status = sc, data = JObj fs\<rparr>))) st)) =
        \<lparr>toast_type = Error, title = JStr m, message = JUndefined\<rparr>) \<and>
   (\<not> truthy (field fs (ascii ''message'')) \<longrightarrow>
      snd (snd (handleAddSubscription (Inl (ApiError (Some \<lparr>status = sc, data = JObj fs\<rparr>))) st)) =
        \<lparr>toast_type = Error, title = JStr TEXT_subscribe_failed, message = JUndefined\<rparr>) \<and>
   snd (snd (handleAddSubscription (Inl (ApiError None)) st)) =
     \<lparr>toast_type = Error, title = JStr TEXT_subscribe_failed, message = JUndefined\<rparr> \<and>
   (\<not> truthy (field fs (ascii ''isPending'')) \<and> field fs (ascii ''error'') = JStr m \<and> m \<noteq> [] \<longrightarrow>
      handleHardwareReplace_catch (ApiError (Some \<lparr>status = sc, data = JObj fs\<rparr>)) =
        \<lparr>toast_type = Error, title = JStr TEXT_replace_failed, message = JStr m\<rparr>) \<and>
   (truthy (field fs (ascii ''isPending'')) \<and> field fs (ascii ''error'') = JStr m \<and> m \<noteq> [] \<longrightarrow>
      handleHardwareReplace_catch (ApiError (Some \<lparr>status = sc, data = JObj fs\<rparr>)) =
        \<lparr>toast_type = Warning, title = JStr m, message = JUndefined\<rparr>) \<and>
   handleHardwareReplace_catch (ApiError None) =
     \<lparr>toast_type = Error, title = JStr TEXT_replace_failed, message = JStr TEXT_unknown_error\<rparr>"
  by (simp add: toast_of_failed_subscription error_data_def opt_member_def js_or_def
      handleHardwareReplace_catch_def)

theorem error_message_fields_witness:
  "snd (snd (handleAddSubscription
      (Inl (ApiError (Some \<lparr>status = 400,
              data = JObj [(ascii ''message'', JStr (ascii ''planCode is required''))]\<rparr>)))
      \<lparr>formData = initial_formData, showAddForm = True\<rparr>)) =
     \<lparr>toast_type = Error, title = JStr (ascii ''planCode is required''), message = JUndefined\<rparr> \<and>
   snd (snd (handleAddSubscription
      (Inl (ApiError (Some \<lparr>status = 400,
              data = JObj [(ascii ''error'', JStr (ascii ''planCode is required'')),
                           (ascii ''code'', JStr (ascii ''bad_request''))]\<rparr>)))
      \<lparr>formData = initial_formData, showAddForm = True\<rparr>)) =
     \<lparr>toast_type = Error, title = JStr TEXT_subscribe_failed, message = JUndefined\<rparr> \<and>
   handleHardwareReplace_catch
      (ApiError (Some \<lparr>status = 400,
              data = JObj [(ascii ''error'', JStr (ascii ''planCode is required'')),
                           (ascii ''code'', JStr (ascii ''bad_request''))]\<rparr>)) =
     \<lparr>toast_type = Error, title = JStr TEXT_replace_failed,
      message = JStr (ascii ''planCode is required'')\<rparr> \<and>
   handleHardwareReplace_catch
      (ApiError (Some \<lparr>status = 409,
              data = JObj [(ascii ''isPending'', JBool True),
                           (ascii ''error'', JStr (ascii ''pending''))]\<rparr>)) =
     \<lparr>toast_type = Warning, title = JStr (ascii ''pending''), message = JUndefined\<rparr>"
proof -
  let ?msg = "[(ascii ''message'', JStr (ascii ''planCode is required''))]"
  let ?env = "[(ascii ''error'', JStr (ascii ''planCode is required'')),
               (ascii ''code'', JStr (ascii ''bad_request''))]"
  let ?pend = "[(ascii ''isPending'', JBool True), (ascii ''error'', JStr (ascii ''pending''))]"
  have h1: "field ?msg (ascii ''message'') = JStr (ascii ''planCode is required'') \<and>
            ascii ''planCode is required'' \<noteq> []"
    by (simp add: field_def ascii_def)
  have h2: "\<not> truthy (field ?env (ascii ''message''))"
    by (simp add: field_def ascii_def)
  have h3: "\<not> truthy (field ?env (ascii ''isPending'')) \<and>
            field ?env (ascii ''error'') = JStr (ascii ''planCode is required'') \<and>
            ascii ''planCode is required'' \<noteq> []"
    by (simp add: field_def ascii_def)
  have h4: "truthy (field ?pend (ascii ''isPending'')) \<and>
            field ?pend (ascii ''error'') = JStr (ascii ''pending'') \<and> ascii ''pending'' \<noteq> []"
    by (simp add: field_def ascii_def)
  from h1 error_message_fields [of ?msg "ascii ''planCode is required''" 400]
  have c1: "snd (snd (handleAddSubscription
      (Inl (ApiError (Some \<lparr>status = 400, data = JObj ?msg\<rparr>)))
      \<lparr>formData = initial_formData, showAddForm = True\<rparr>)) =
     \<lparr>toast_type = Error, title = JStr (ascii ''planCode is required''), message = JUndefined\<rparr>"
    by blast
  from h2 error_message_fields [of ?env _ 400]
  have c2: "snd (snd (handleAddSubscription
      (Inl (ApiError (Some \<lparr>status = 400, data = JObj ?env\<rparr>)))
      \<lparr>formData = initial_formData, showAddForm = True\<rparr>)) =
     \<lparr>toast_type = Error, title = JStr TEXT_subscribe_failed, message = JUndefined\<rparr>"
    by blast
  from h3 error_message_fields [of ?env "ascii ''planCode is required''" 400]
  have c3: "handleHardwareReplace_catch (ApiError (Some \<lparr>status = 400, data = JObj ?env\<rparr>)) =
     \<lparr>toast_type = Error, title = JStr TEXT_replace_failed,
      message = JStr (ascii ''planCode is required'')\<rparr>"
    by blast
  from h4 error_message_fields [of ?pend "ascii ''pending''" 409]
  have c4: "handleHardwareReplace_catch (ApiError (Some \<lparr>status = 409, data = JObj ?pend\<rparr>)) =
     \<lparr>toast_type = Warning, title = JStr (ascii ''pending''), message = JUndefined\<rparr>"
    by blast
  from c1 c2 c3 c4 show ?thesis by blast
qed

section \<open>Subscriptions without datacenters\<close>

lemma dropWhile_all_iff:
  "(\<forall>x \<in> set (dropWhile P ys). P x) \<longleftrightarrow> (\<forall>x \<in> set ys. P x)"
proof
  assume all: "\<forall>x \<in> set (dropWhile P ys). P x"
  have "dropWhile P ys = []"
  proof (rule ccontr)
    assume ne: "dropWhile P ys \<noteq> []"
    then have "\<not> P (hd (dropWhile P ys))" by (rule hd_dropWhile)
    moreover from ne have "hd (dropWhile P ys) \<in> set (dropWhile P ys)" by simp
    ultimately show False using all by blast
  qed
  then show "\<forall>x \<in> set ys. P x" by (simp add: dropWhile_eq_Nil_conv)
next
  assume "\<forall>x \<in> set ys. P x"
  then show "\<forall>x \<in> set (dropWhile P ys). P x"
    using set_dropWhileD by fastforce
qed

lemma trim_Nil_iff: "trim s = [] \<longleftrightarrow> (\<forall>u \<in> set s. is_white_space u)"
proof -
  have "trim s = [] \<longleftrightarrow> (\<forall>x \<in> set (dropWhile is_white_space (rev s)). is_white_space x)"
    by (simp add: trim_def dropWhile_eq_Nil_conv)
  also have "\<dots> \<longleftrightarrow> (\<forall>x \<in> set (rev s). is_white_space x)"
    by (rule dropWhile_all_iff)
  finally show ?thesis by simp
qed

lemma split_pieces: "\<Union> (set ` set (split sep s)) = set s - {sep}"
proof (induction s)
  case Nil
  show ?case by simp
next
  case (Cons c cs)
  show ?case
  proof (cases "c = sep")
    case True
    with Cons show ?thesis by simp
  next
    case False
    with Cons show ?thesis by (cases "split sep cs") auto
  qed
qed

lemma parse_datacenters_Nil_iff:
  "parse_datacenters input = [] \<longleftrightarrow> (\<forall>u \<in> set input. u = comma \<or> is_white_space u)"
proof -
  have "parse_datacenters input = [] \<longleftrightarrow>
        (\<forall>w \<in> set (split comma input). \<forall>u \<in> set w. is_white_space u)"
    by (simp add: parse_datacenters_def filter_empty_conv trim_Nil_iff)
  also have "\<dots> \<longleftrightarrow> (\<forall>u \<in> \<Union> (set ` set (split comma input)). is_white_space u)"
    by blast
  also have "\<dots> \<longleftrightarrow> (\<forall>u \<in> set input. u = comma \<or> is_white_space u)"
    by (auto simp: split_pieces)
  finally show ?thesis .
qed

lemma sent_request: "fst (handleAddSubscription outcome st) = subscription_request (formData st)"
  by (cases outcome) (simp_all add: handleAddSubscription_def Let_def)

lemma datacenters_field:
  "member (body (subscription_request fd)) (ascii ''datacenters'') =
     Inr (JArr (map JStr (parse_datacenters (form_datacenters fd))))"
  by (simp add: subscription_request_def Let_def field_def ascii_def)

text \<open>
  Claim C2. An empty list of datacenters means "monitor all". When the datacenters
  field of the form holds no code (only commas and white space, or nothing), the request
  that creates the subscription is a POST to \<open>/vps-monitor/subscriptions\<close> whose
  \<open>datacenters\<close> is the empty array, and a subscription whose list of datacenters is
  empty is shown as monitoring all datacenters. The inputs in question are exactly those
  from which splitting at commas and trimming leaves no non-empty piece.
\<close>

theorem empty_datacenters_monitor_all:
  "((\<forall>u \<in> set (form_datacenters (formData st)). u = comma \<or> is_white_space u) \<longrightarrow>
      req_method (fst (handleAddSubscription outcome st)) = POST \<and>
      path (fst (handleAddSubscription outcome st)) = ascii ''/vps-monitor/subscriptions'' \<and>
      member (body (fst (handleAddSubscription outcome st))) (ascii ''datacenters'') = Inr (JArr [])) \<and>
   (datacenters sub = [] \<longrightarrow> subscription_datacenters_line sub = TEXT_monitor_all) \<and>
   (parse_datacenters input = [] \<longleftrightarrow> (\<forall>u \<in> set input. u = comma \<or> is_white_space u))"
proof -
  have "req_method (subscription_request fd) = POST \<and>
        path (subscription_request fd) = ascii ''/vps-monitor/subscriptions''" for fd
    by (simp add: subscription_request_def Let_def)
  then show ?thesis
    by (simp add: sent_request datacenters_field parse_datacenters_Nil_iff [symmetric]
        subscription_datacenters_line_def)
qed

theorem empty_datacenters_monitor_all_witness:
  "member (body (fst (handleAddSubscription (Inr \<lparr>status = 200, data = JNull\<rparr>)
      \<lparr>formData = initial_formData\<lparr>form_datacenters := ascii '' , ''\<rparr>, showAddForm = True\<rparr>)))
      (ascii ''datacenters'') = Inr (JArr []) \<and>
   subscription_datacenters_line
     \<lparr>sub_id = ascii ''sub-1'', planCode = ascii ''vps-2025-model1'', ovhSubsidiary = ascii ''IE'',
      datacenters = [], monitorLinux = True, monitorWindows = True, notifyAvailable = True,
      notifyUnavailable = False, lastStatus = JObj [], createdAt = ascii ''2025-01-01T00:00:00Z''\<rparr>
     = TEXT_monitor_all \<and>
   parse_datacenters (ascii '' , '') = []"
proof -
  let ?st = "\<lparr>formData = initial_formData\<lparr>form_datacenters := ascii '' , ''\<rparr>, showAddForm = True\<rparr>"
  let ?sub = "\<lparr>sub_id = ascii ''sub-1'', planCode = ascii ''vps-2025-model1'', ovhSubsidiary = ascii ''IE'',
      datacenters = [], monitorLinux = True, monitorWindows = True, notifyAvailable = True,
      notifyUnavailable = False, lastStatus = JObj [], createdAt = ascii ''2025-01-01T00:00:00Z''\<rparr>"
  have only: "\<forall>u \<in> set (form_datacenters (formData ?st)). u = comma \<or> is_white_space u"
    by (simp add: ascii_def comma_def is_white_space_def)
  have only': "\<forall>u \<in> set (ascii '' , ''). u = comma \<or> is_white_space u"
    by (simp add: ascii_def comma_def is_white_space_def)
  have none: "datacenters ?sub = []"
    by simp
  note inst = empty_datacenters_monitor_all
    [of ?st "Inr \<lparr>status = 200, data = JNull\<rparr>" ?sub "ascii '' , ''"]
  from inst only have a: "member (body (fst (handleAddSubscription (Inr \<lparr>status = 200, data = JNull\<rparr>) ?st)))
      (ascii ''datacenters'') = Inr (JArr [])"
    by blast
  from inst none have b: "subscription_datacenters_line ?sub = TEXT_monitor_all"
    by blast
  from inst only' have c: "parse_datacenters (ascii '' , '') = []"
    by blast
  from a b c show ?thesis by blast
qed

section \<open>The dashboard's request for the task list\<close>

text \<open>
  Claim C4, as stated: the tasks are listed by \<open>GET /queue\<close> with a \<open>scope\<close>
  parameter, and the dashboard's request for the full list has this shape. The dashboard
  requests \<open>/queue/all\<close> with no parameter, which is neither \<open>GET /queue?scope=all\<close>
  nor \<open>GET /queue?scope=self\<close>.
\<close>

theorem dashboard_queue_request_counterexample:
  "queue_request \<in> set fetchData_requests \<and>
   path queue_request = ascii ''/queue/all'' \<and> params queue_request = [] \<and>
   queue_request \<noteq> list_tasks_request ScopeAll \<and>
   queue_request \<noteq> list_tasks_request ScopeSelf"
  by (simp add: fetchData_requests_def queue_request_def list_tasks_request_def ascii_def)

text \<open>
  Claim C4, amended. The list-tasks operation is \<open>GET /queue\<close> with a \<open>scope\<close>
  parameter of \<open>self\<close> or \<open>all\<close>, and returns the tasks of the requesting account
  unless the scope is \<open>all\<close>. The dashboard asks for the full list with another request,
  \<open>GET /queue/all\<close> without parameters, and keeps the first three tasks that are
  running, pending or paused.
\<close>

theorem list_tasks_and_dashboard:
  "list_tasks owner ScopeAll account tasks = tasks \<and>
   list_tasks owner ScopeSelf account tasks = filter (\<lambda>t. owner t = account) tasks \<and>
   list_tasks_request sc =
     \<lparr>req_method = GET, path = ascii ''/queue'', params = [(ascii ''scope'', scope_value sc)], body = JUndefined\<rparr> \<and>
   scope_value sc \<in> {ascii ''self'', ascii ''all''} \<and>
   fetchData_requests =
     [\<lparr>req_method = GET, path = ascii ''/stats'', params = [], body = JUndefined\<rparr>,
      \<lparr>req_method = GET, path = ascii ''/queue/all'', params = [], body = JUndefined\<rparr>] \<and>
   queue_request \<noteq> list_tasks_request sc \<and>
   queueItems (fst (fetchData isAuthenticated (Inr (statsData, queueData)) st)) =
     take 3 (filter (\<lambda>item. item_status item = ascii ''running'' \<or> item_status item = ascii ''pending'' \<or>
                             item_status item = ascii ''paused'') queueData)"
  by (cases sc)
     (simp_all add: list_tasks_def list_tasks_request_def scope_value_def fetchData_requests_def
        stats_request_def queue_request_def fetchData_def activeItems_def Let_def ascii_def)

section \<open>The grouped purchase history\<close>

subsection \<open>The map from key to entries\<close>

lemma map_of_map_push:
  "map_of (map_push k it m) k' =
     (if k' = k then Some ((case map_of m k of None \<Rightarrow> [] | Some its \<Rightarrow> its) @ [it])
      else map_of m k')"
  by (induction m) auto

lemma keys_map_push: "fst ` set (map_push k it m) = insert k (fst ` set m)"
proof (induction m)
  case Nil
  show ?case by simp
next
  case (Cons p m)
  obtain k' its where p: "p = (k', its)" by (cases p)
  show ?case
  proof (cases "k' = k")
    case True
    with p show ?thesis by simp
  next
    case False
    with p Cons.IH show ?thesis by (simp add: insert_commute)
  qed
qed

lemma distinct_map_push:
  "distinct (map fst m) \<Longrightarrow> distinct (map fst (map_push k it m))"
  by (induction m) (auto simp: keys_map_push)

lemma distinct_fold_map_push:
  "distinct (map fst m) \<Longrightarrow>
   distinct (map fst (foldl (\<lambda>m it. map_push (group_key it) it m) m h))"
  by (induction h arbitrary: m) (simp_all add: distinct_map_push)

lemma map_of_fold_map_push:
  "map_of (foldl (\<lambda>m it. map_push (group_key it) it m) m h) k =
     (if map_of m k = None \<and> filter (\<lambda>it. group_key it = k) h = [] then None
      else Some ((case map_of m k of None \<Rightarrow> [] | Some its \<Rightarrow> its) @
                 filter (\<lambda>it. group_key it = k) h))"
proof (induction h arbitrary: m)
  case Nil
  show ?case by (cases "map_of m k") simp_all
next
  case (Cons x h)
  show ?case
    by (cases "map_of m k") (simp_all add: Cons.IH map_of_map_push)
qed

lemma distinct_build_map: "distinct (map fst (build_map h))"
  by (simp add: build_map_def distinct_fold_map_push)

lemma map_of_build_map:
  "map_of (build_map h) k =
     (if filter (\<lambda>it. group_key it = k) h = [] then None
      else Some (filter (\<lambda>it. group_key it = k) h))"
  by (simp add: build_map_def map_of_fold_map_push)

lemma in_build_map_iff:
  "(k, its) \<in> set (build_map h) \<longleftrightarrow> its \<noteq> [] \<and> its = filter (\<lambda>it. group_key it = k) h"
proof -
  have "(k, its) \<in> set (build_map h) \<longleftrightarrow> map_of (build_map h) k = Some its"
    by (simp add: distinct_build_map)
  then show ?thesis by (auto simp: map_of_build_map)
qed

lemma keys_build_map: "fst ` set (build_map h) = group_key ` set h"
proof -
  have "k \<in> fst ` set (build_map h) \<longleftrightarrow> k \<in> group_key ` set h" for k
  proof -
    have "k \<in> fst ` set (build_map h) \<longleftrightarrow> map_of (build_map h) k \<noteq> None"
      by (simp add: map_of_eq_None_iff)
    also have "\<dots> \<longleftrightarrow> filter (\<lambda>it. group_key it = k) h \<noteq> []"
      by (simp add: map_of_build_map)
    also have "\<dots> \<longleftrightarrow> k \<in> group_key ` set h"
      by (auto simp: filter_empty_conv)
    finally show ?thesis .
  qed
  then show ?thesis by blast
qed

subsection \<open>The sort\<close>

lemma mset_insert_sorted: "mset (insert_sorted cmp x ys) = add_mset x (mset ys)"
  by (induction ys) simp_all

lemma js_sort_Cons: "js_sort cmp (x # xs) = insert_sorted cmp x (js_sort cmp xs)"
  by (simp add: js_sort_def)

lemma mset_js_sort: "mset (js_sort cmp xs) = mset xs"
  by (induction xs) (simp_all add: js_sort_Cons mset_insert_sorted, simp add: js_sort_def)

lemma set_js_sort: "set (js_sort cmp xs) = set xs"
  using mset_js_sort [of cmp xs] by (metis set_mset_mset)

lemma set_insert_sorted: "set (insert_sorted cmp x ys) = insert x (set ys)"
  using mset_insert_sorted [of cmp x ys] by (metis set_mset_mset set_mset_add_mset_insert)

lemma compare_desc_le:
  "getTime (purchaseTime a) \<noteq> None \<Longrightarrow> getTime (purchaseTime b) \<noteq> None \<Longrightarrow>
   compare_desc getTime a b \<le> 0 \<longleftrightarrow> not_older getTime a b"
  by (auto simp: compare_desc_def not_older_def)

lemma not_older_total:
  "getTime (purchaseTime a) \<noteq> None \<Longrightarrow> getTime (purchaseTime b) \<noteq> None \<Longrightarrow>
   \<not> not_older getTime a b \<Longrightarrow> not_older getTime b a"
  by (auto simp: not_older_def)

lemma not_older_trans:
  "not_older getTime a b \<Longrightarrow> not_older getTime b c \<Longrightarrow> not_older getTime a c"
  by (auto simp: not_older_def split: option.splits)

lemma not_older_refl: "getTime (purchaseTime a) \<noteq> None \<Longrightarrow> not_older getTime a a"
  by (auto simp: not_older_def)

lemma sorted_insert_sorted:
  assumes "getTime (purchaseTime x) \<noteq> None"
    and "\<forall>y \<in> set ys. getTime (purchaseTime y) \<noteq> None"
    and "sorted_wrt (not_older getTime) ys"
  shows "sorted_wrt (not_older getTime) (insert_sorted (compare_desc getTime) x ys)"
  using assms(2,3)
proof (induction ys)
  case Nil
  show ?case by simp
next
  case (Cons y ys)
  show ?case
  proof (cases "compare_desc getTime x y \<le> 0")
    case True
    with assms(1) Cons.prems have xy: "not_older getTime x y"
      by (simp add: compare_desc_le)
    with Cons.prems have "\<forall>z \<in> set ys. not_older getTime x z"
      by (auto intro: not_older_trans)
    with xy True Cons.prems show ?thesis by simp
  next
    case False
    with assms(1) Cons.prems have "not_older getTime y x"
      by (simp add: compare_desc_le not_older_total)
    with False Cons show ?thesis
      by (simp add: set_insert_sorted)
  qed
qed

lemma sorted_js_sort:
  "\<forall>x \<in> set xs. getTime (purchaseTime x) \<noteq> None \<Longrightarrow>
   sorted_wrt (not_older getTime) (js_sort (compare_desc getTime) xs)"
proof (induction xs)
  case Nil
  show ?case by (simp add: js_sort_def)
next
  case (Cons x xs)
  then show ?case
    by (simp add: js_sort_Cons sorted_insert_sorted set_js_sort)
qed

lemma sorted_wrt_last:
  "sorted_wrt P xs \<Longrightarrow> \<forall>x \<in> set xs. P x x \<Longrightarrow> e \<in> set xs \<Longrightarrow> P e (last xs)"
proof (induction xs)
  case Nil
  then show ?case by simp
next
  case (Cons x xs)
  show ?case
  proof (cases "xs = []")
    case True
    with Cons.prems show ?thesis by simp
  next
    case False
    then have "last xs \<in> set xs" by simp
    with Cons False show ?thesis by auto
  qed
qed

lemma sorted_wrt_hd:
  "sorted_wrt P xs \<Longrightarrow> \<forall>x \<in> set xs. P x x \<Longrightarrow> e \<in> set xs \<Longrightarrow> P (hd xs) e"
  by (cases xs) auto

lemma render_group_nonempty:
  "items g \<noteq> [] \<Longrightarrow>
   \<exists>c. render_group g = Inr c \<and> head c = hd (items g) \<and>
       timeRange_from c = purchaseTime (last (items g)) \<and>
       timeRange_to c = purchaseTime (hd (items g))"
  by (cases "items g") (simp_all add: render_group_def)

lemma in_groups_iff:
  "g \<in> set (groups getTime h) \<longleftrightarrow>
     (\<exists>its. its \<noteq> [] \<and> its = filter (\<lambda>it. group_key it = key g) h \<and>
            g = \<lparr>key = key g, items = js_sort (compare_desc getTime) its\<rparr>)"
  by (auto simp: groups_def in_build_map_iff image_iff split: prod.splits) 

lemma keys_groups: "map key (groups getTime h) = map fst (build_map h)"
  by (simp add: groups_def case_prod_unfold comp_def)

text \<open>
  Claim C3, as stated: for every list of entries, every group is sorted by
  \<open>purchaseTime\<close>, the most recent entry first and the oldest last. Between two attempts
  of a task a minute apart, put an entry whose \<open>purchaseTime\<close> is no date: every
  comparison with it is \<open>NaN\<close>, no entry moves, and the group begins with the older
  attempt and ends with the newer one, its time range running from the newer to the older.
\<close>

theorem undated_entry_counterexample:
  "groups sample_getTime sample_undated_history =
     [\<lparr>key = ascii ''task-1'',
       items = [sample_entry (ascii ''h1'') (Some (ascii ''task-1'')) (ascii ''2025-03-01T10:00:00Z''),
                sample_entry (ascii ''h2'') (Some (ascii ''task-1'')) (ascii ''unknown''),
                sample_entry (ascii ''h3'') (Some (ascii ''task-1'')) (ascii ''2025-03-01T10:01:00Z'')]\<rparr>] \<and>
   sample_getTime (ascii ''2025-03-01T10:00:00Z'') = Some 1740823200000 \<and>
   sample_getTime (ascii ''unknown'') = None \<and>
   sample_getTime (ascii ''2025-03-01T10:01:00Z'') = Some 1740823260000 \<and>
   \<not> not_older sample_getTime
       (sample_entry (ascii ''h1'') (Some (ascii ''task-1'')) (ascii ''2025-03-01T10:00:00Z''))
       (sample_entry (ascii ''h3'') (Some (ascii ''task-1'')) (ascii ''2025-03-01T10:01:00Z'')) \<and>
   render_group
     \<lparr>key = ascii ''task-1'',
      items = [sample_entry (ascii ''h1'') (Some (ascii ''task-1'')) (ascii ''2025-03-01T10:00:00Z''),
               sample_entry (ascii ''h2'') (Some (ascii ''task-1'')) (ascii ''unknown''),
               sample_entry (ascii ''h3'') (Some (ascii ''task-1'')) (ascii ''2025-03-01T10:01:00Z'')]\<rparr> =
     Inr \<lparr>head = sample_entry (ascii ''h1'') (Some (ascii ''task-1'')) (ascii ''2025-03-01T10:00:00Z''),
          successCount = 3, failedCount = 0,
          timeRange_from = ascii ''2025-03-01T10:01:00Z'',
          timeRange_to = ascii ''2025-03-01T10:00:00Z''\<rparr>"
proof (intro conjI)
  show "groups sample_getTime sample_undated_history =
     [\<lparr>key = ascii ''task-1'',
       items = [sample_entry (ascii ''h1'') (Some (ascii ''task-1'')) (ascii ''2025-03-01T10:00:00Z''),
                sample_entry (ascii ''h2'') (Some (ascii ''task-1'')) (ascii ''unknown''),
                sample_entry (ascii ''h3'') (Some (ascii ''task-1'')) (ascii ''2025-03-01T10:01:00Z'')]\<rparr>]"
    by (simp add: groups_def build_map_def sample_undated_history_def sample_entry_def
        group_key_def js_sort_def compare_desc_def sample_getTime_def ascii_def)
  show "sample_getTime (ascii ''2025-03-01T10:00:00Z'') = Some 1740823200000"
    by (simp add: sample_getTime_def ascii_def)
  show "sample_getTime (ascii ''unknown'') = None"
    by (simp add: sample_getTime_def ascii_def)
  show "sample_getTime (ascii ''2025-03-01T10:01:00Z'') = Some 1740823260000"
    by (simp add: sample_getTime_def ascii_def)
  show "\<not> not_older sample_getTime
       (sample_entry (ascii ''h1'') (Some (ascii ''task-1'')) (ascii ''2025-03-01T10:00:00Z''))
       (sample_entry (ascii ''h3'') (Some (ascii ''task-1'')) (ascii ''2025-03-01T10:01:00Z''))"
    by (simp add: not_older_def sample_entry_def sample_getTime_def ascii_def)
  show "render_group
     \<lparr>key = ascii ''task-1'',
      items = [sample_entry (ascii ''h1'') (Some (ascii ''task-1'')) (ascii ''2025-03-01T10:00:00Z''),
               sample_entry (ascii ''h2'') (Some (ascii ''task-1'')) (ascii ''unknown''),
               sample_entry (ascii ''h3'') (Some (ascii ''task-1'')) (ascii ''2025-03-01T10:01:00Z'')]\<rparr> =
     Inr \<lparr>head = sample_entry (ascii ''h1'') (Some (ascii ''task-1'')) (ascii ''2025-03-01T10:00:00Z''),
          successCount = 3, failedCount = 0,
          timeRange_from = ascii ''2025-03-01T10:01:00Z'',
          timeRange_to = ascii ''2025-03-01T10:00:00Z''\<rparr>"
    by (simp add: render_group_def sample_entry_def) (simp add: ascii_def)
qed

text \<open>
  Claim C3, amended. For every list of entries, the grouped view partitions the entries
  by \<open>taskId\<close>, or by the entry's own id where there is none: the keys of the groups
  are distinct, they are the keys of the entries, and a group holds exactly the entries
  of its key. The time range of a group runs from the \<open>purchaseTime\<close> of its last item
  to that of its first. Within every group whose entries all carry a date as
  \<open>purchaseTime\<close>, the entries are sorted by it, not increasing, so the first item is
  the most recent and the last item the oldest.
\<close>

theorem grouped_history_order:
  "distinct (map key (groups getTime h)) \<and>
   set (map key (groups getTime h)) = group_key ` set h \<and>
   (\<forall>g \<in> set (groups getTime h).
      items g \<noteq> [] \<and>
      mset (items g) = mset (filter (\<lambda>e. group_key e = key g) h) \<and>
      (\<exists>c. render_group g = Inr c \<and> head c = hd (items g) \<and>
           timeRange_from c = purchaseTime (last (items g)) \<and>
           timeRange_to c = purchaseTime (hd (items g))) \<and>
      ((\<forall>e \<in> set (items g). getTime (purchaseTime e) \<noteq> None) \<longrightarrow>
         sorted_wrt (not_older getTime) (items g) \<and>
         (\<forall>e \<in> set (items g).
            not_older getTime (hd (items g)) e \<and> not_older getTime e (last (items g)))))"
proof (intro conjI ballI impI)
  show "distinct (map key (groups getTime h))"
    by (simp add: keys_groups distinct_build_map)
  show "set (map key (groups getTime h)) = group_key ` set h"
    by (simp add: keys_groups keys_build_map)
next
  fix g
  assume "g \<in> set (groups getTime h)"
  then obtain its where its: "its \<noteq> []" "its = filter (\<lambda>it. group_key it = key g) h"
    and g: "items g = js_sort (compare_desc getTime) its"
    by (metis in_groups_iff history_group.select_convs(2))
  show "mset (items g) = mset (filter (\<lambda>e. group_key e = key g) h)"
    by (simp add: g mset_js_sort its(2))
  from its(1) show ne: "items g \<noteq> []"
    using mset_js_sort [of "compare_desc getTime" its] g by (metis mset_zero_iff)
  from ne show "\<exists>c. render_group g = Inr c \<and> head c = hd (items g) \<and>
                 timeRange_from c = purchaseTime (last (items g)) \<and>
                 timeRange_to c = purchaseTime (hd (items g))"
    by (rule render_group_nonempty)
  assume dates: "\<forall>e \<in> set (items g). getTime (purchaseTime e) \<noteq> None"
  then have "\<forall>x \<in> set its. getTime (purchaseTime x) \<noteq> None"
    by (simp add: g set_js_sort)
  then show sorted: "sorted_wrt (not_older getTime) (items g)"
    by (simp add: g sorted_js_sort)
  from dates have refl: "\<forall>x \<in> set (items g). not_older getTime x x"
    by (simp add: not_older_refl)
  fix e
  assume "e \<in> set (items g)"
  with sorted refl show "not_older getTime (hd (items g)) e"
    by (simp add: sorted_wrt_hd)
  from sorted refl \<open>e \<in> set (items g)\<close> show "not_older getTime e (last (items g))"
    by (rule sorted_wrt_last)
qed

lemma sample_groups:
  "groups sample_getTime sample_history =
     [\<lparr>key = ascii ''task-1'',
       items = [sample_entry (ascii ''h3'') (Some (ascii ''task-1'')) (ascii ''2025-03-01T10:01:00Z''),
                sample_entry (ascii ''h1'') (Some (ascii ''task-1'')) (ascii ''2025-03-01T10:00:00Z'')]\<rparr>,
      \<lparr>key = ascii ''h2'',
       items = [sample_entry (ascii ''h2'') None (ascii ''2025-03-01T10:00:30Z'')]\<rparr>]"
  by (simp add: groups_def build_map_def sample_history_def sample_entry_def group_key_def
      js_sort_def compare_desc_def sample_getTime_def ascii_def)

theorem grouped_history_order_witness:
  "groups sample_getTime sample_history =
     [\<lparr>key = ascii ''task-1'',
       items = [sample_entry (ascii ''h3'') (Some (ascii ''task-1'')) (ascii ''2025-03-01T10:01:00Z''),
                sample_entry (ascii ''h1'') (Some (ascii ''task-1'')) (ascii ''2025-03-01T10:00:00Z'')]\<rparr>,
      \<lparr>key = ascii ''h2'',
       items = [sample_entry (ascii ''h2'') None (ascii ''2025-03-01T10:00:30Z'')]\<rparr>] \<and>
   sorted_wrt (not_older sample_getTime)
     [sample_entry (ascii ''h3'') (Some (ascii ''task-1'')) (ascii ''2025-03-01T10:01:00Z''),
      sample_entry (ascii ''h1'') (Some (ascii ''task-1'')) (ascii ''2025-03-01T10:00:00Z'')] \<and>
   not_older sample_getTime
     (sample_entry (ascii ''h3'') (Some (ascii ''task-1'')) (ascii ''2025-03-01T10:01:00Z''))
     (sample_entry (ascii ''h1'') (Some (ascii ''task-1'')) (ascii ''2025-03-01T10:00:00Z''))"
proof -
  let ?h1 = "sample_entry (ascii ''h1'') (Some (ascii ''task-1'')) (ascii ''2025-03-01T10:00:00Z'')"
  let ?h3 = "sample_entry (ascii ''h3'') (Some (ascii ''task-1'')) (ascii ''2025-03-01T10:01:00Z'')"
  let ?g = "\<lparr>key = ascii ''task-1'', items = [?h3, ?h1]\<rparr>"
  have dates: "\<forall>e \<in> set (items ?g). sample_getTime (purchaseTime e) \<noteq> None"
    by (simp add: sample_entry_def sample_getTime_def ascii_def)
  have mem: "?g \<in> set (groups sample_getTime sample_history)"
    by (simp add: sample_groups)
  from grouped_history_order [of sample_getTime sample_history] mem dates
  have "sorted_wrt (not_older sample_getTime) (items ?g) \<and>
        (\<forall>e \<in> set (items ?g).
           not_older sample_getTime (hd (items ?g)) e \<and> not_older sample_getTime e (last (items ?g)))"
    by blast
  then have "sorted_wrt (not_older sample_getTime) [?h3, ?h1] \<and> not_older sample_getTime ?h3 ?h1"
    by simp
  with sample_groups show ?thesis by blast
qed

end
